theory Spec2Isabelle
  imports Complex_Main
begin

section \<open>The runtime the library is written against\<close>

text \<open>
  The library is a flat set of TypeScript functions over the platform's
  \<^verbatim>\<open>URLSearchParams\<close>, \<^verbatim>\<open>parseInt\<close>, \<^verbatim>\<open>parseFloat\<close>, \<^verbatim>\<open>Date\<close>,
  \<^verbatim>\<open>toString\<close> and \<^verbatim>\<open>console.error\<close>. Those primitives are modelled first, after
  the WHATWG URL standard and ECMA-262; the functions of \<^verbatim>\<open>src/index.ts\<close> follow, in
  the order of the source.

  Strings are \<^typ>\<open>string\<close>: a character stands for one code unit below 256.
\<close>

subsection \<open>Exceptions, try/catch and the console\<close>

datatype js_error = Error string | TypeError string

type_synonym 'a completion = "js_error + 'a"

text \<open>One call of \<^verbatim>\<open>console.error(message, error)\<close>.\<close>

type_synonym console = "(string \<times> js_error) list"

text \<open>
  \<^verbatim>\<open>try { return body } catch (error) { console.error(message, error); return undefined }\<close>:
  the value returned, and what the call wrote to the console.
\<close>

definition try_catch :: "'a completion \<Rightarrow> string \<Rightarrow> 'a option \<times> console" where
  "try_catch body message =
     (case body of
        Inr v \<Rightarrow> (Some v, [])
      | Inl error \<Rightarrow> (None, [(message, error)]))"

subsection \<open>Numbers\<close>

text \<open>
  A Number is NaN, an infinity, or finite. A finite Number is carried as the
  mathematical value it denotes; the rounding of a value to the nearest double (the
  identity on integers up to \<open>2 ^ 53\<close> in magnitude) and the sign of zero are not
  modelled.
\<close>

datatype jsnum = NaN | Infinity | NegInfinity | Finite rat

definition isWhiteSpace :: "char \<Rightarrow> bool" where
  \<comment> \<open>WhiteSpace and LineTerminator of ECMA-262, among the code units below 256\<close>
  "isWhiteSpace c \<longleftrightarrow>
     c \<in> set [CHR 0x09, CHR 0x0A, CHR 0x0B, CHR 0x0C, CHR 0x0D, CHR 0x20, CHR 0xA0]"

definition digitValue :: "char \<Rightarrow> nat option" where
  "digitValue c =
     map_of [(CHR ''0'', 0), (CHR ''1'', 1), (CHR ''2'', 2), (CHR ''3'', 3), (CHR ''4'', 4),
             (CHR ''5'', 5), (CHR ''6'', 6), (CHR ''7'', 7), (CHR ''8'', 8), (CHR ''9'', 9),
             (CHR ''a'', 10), (CHR ''b'', 11), (CHR ''c'', 12), (CHR ''d'', 13),
             (CHR ''e'', 14), (CHR ''f'', 15),
             (CHR ''A'', 10), (CHR ''B'', 11), (CHR ''C'', 12), (CHR ''D'', 13),
             (CHR ''E'', 14), (CHR ''F'', 15)] c"

definition radixDigit :: "nat \<Rightarrow> char \<Rightarrow> bool" where
  "radixDigit R c = (case digitValue c of None \<Rightarrow> False | Some d \<Rightarrow> d < R)"

definition mathInt :: "nat \<Rightarrow> string \<Rightarrow> nat" where
  \<comment> \<open>the integer that a string of radix-\<open>R\<close> digits denotes\<close>
  "mathInt R Z =
     foldl (\<lambda>acc c. case digitValue c of None \<Rightarrow> acc | Some d \<Rightarrow> acc * R + d) 0 Z"

text \<open>
  \<^verbatim>\<open>parseInt(string)\<close> with no radix argument (ECMA-262, 19.2.5): leading white space
  is trimmed, a sign is read, a \<^verbatim>\<open>0x\<close> prefix selects radix 16, and the longest run
  of digits is the value; with no digit the result is NaN. It never throws.
\<close>

definition parseInt :: "string \<Rightarrow> jsnum" where
  "parseInt string =
     (let S = dropWhile isWhiteSpace string;
          sign = (case S of c # _ \<Rightarrow> if c = CHR ''-'' then - 1 else 1 | [] \<Rightarrow> (1 :: rat));
          S1 = (case S of c # r \<Rightarrow> if c = CHR ''+'' \<or> c = CHR ''-'' then r else S | [] \<Rightarrow> S);
          hex = (take 2 S1 = ''0x'' \<or> take 2 S1 = ''0X'');
          R = (if hex then 16 else 10);
          S2 = (if hex then drop 2 S1 else S1);
          Z = takeWhile (radixDigit R) S2
      in if Z = [] then NaN else Finite (sign * of_nat (mathInt R Z)))"

definition isDecimalDigit :: "char \<Rightarrow> bool" where
  "isDecimalDigit c = radixDigit 10 c"

fun exponentPart :: "string \<Rightarrow> int" where
  \<comment> \<open>the value of the ExponentPart a string starts with, 0 when it starts with none\<close>
  "exponentPart [] = 0"
| "exponentPart (e # r) =
     (if e = CHR ''e'' \<or> e = CHR ''E'' then
        (case r of
           [] \<Rightarrow> 0
         | c # r' \<Rightarrow>
             if c = CHR ''+'' then int (mathInt 10 (takeWhile isDecimalDigit r'))
             else if c = CHR ''-'' then - int (mathInt 10 (takeWhile isDecimalDigit r'))
             else int (mathInt 10 (takeWhile isDecimalDigit r)))
      else 0)"

text \<open>
  \<^verbatim>\<open>parseFloat(string)\<close> (ECMA-262, 19.2.4): leading white space is trimmed and the
  longest prefix that is a StrDecimalLiteral is the value; with no such prefix the
  result is NaN. It never throws.
\<close>

definition parseFloat :: "string \<Rightarrow> jsnum" where
  "parseFloat string =
     (let S = dropWhile isWhiteSpace string;
          neg = (case S of c # _ \<Rightarrow> c = CHR ''-'' | [] \<Rightarrow> False);
          U = (case S of c # r \<Rightarrow> if c = CHR ''+'' \<or> c = CHR ''-'' then r else S | [] \<Rightarrow> S)
      in if take 8 U = ''Infinity'' then (if neg then NegInfinity else Infinity)
         else
           let ip = takeWhile isDecimalDigit U;
               r1 = dropWhile isDecimalDigit U;
               dot = (case r1 of c # _ \<Rightarrow> c = CHR ''.'' | [] \<Rightarrow> False);
               fp = (if dot then takeWhile isDecimalDigit (tl r1) else []);
               r2 = (if dot then dropWhile isDecimalDigit (tl r1) else r1);
               k = exponentPart r2 - int (length fp);
               m = of_nat (mathInt 10 (ip @ fp)) :: rat;
               v = (if 0 \<le> k then m * 10 ^ nat k else m / 10 ^ nat (- k))
           in if ip = [] \<and> fp = [] then NaN
              else Finite (if neg then - v else v))"

fun decimalDigits :: "nat \<Rightarrow> string" where
  "decimalDigits n =
     (if n < 10 then [''0123456789'' ! n]
      else decimalDigits (n div 10) @ [''0123456789'' ! (n mod 10)])"

text \<open>
  \<^verbatim>\<open>Number.prototype.toString()\<close>. An integer up to \<open>2 ^ 53\<close> in magnitude prints as
  its decimal digits. The digits of every other finite Number are the shortest that
  round-trip through the double format, which is the runtime's to say: \<open>other\<close>.
\<close>

definition Number_toString :: "(rat \<Rightarrow> string) \<Rightarrow> jsnum \<Rightarrow> string" where
  "Number_toString other x =
     (case x of
        NaN \<Rightarrow> ''NaN''
      | Infinity \<Rightarrow> ''Infinity''
      | NegInfinity \<Rightarrow> ''-Infinity''
      | Finite q \<Rightarrow>
          if of_int \<lfloor>q\<rfloor> = q \<and> \<bar>q\<bar> \<le> 2 ^ 53 then
            (if q < 0 then ''-'' @ decimalDigits (nat (- \<lfloor>q\<rfloor>)) else decimalDigits (nat \<lfloor>q\<rfloor>))
          else other q)"

subsection \<open>What the model takes from the runtime as given\<close>

text \<open>
  Date parsing and printing are implementation-defined, and so are the digits of a
  Number that is not a small integer. \<^verbatim>\<open>new Date(string)\<close> never throws: an
  unparseable string gives a Date in the invalid state.
\<close>

record 'd runtime =
  Date_new :: "string \<Rightarrow> 'd"
  Date_toString :: "'d \<Rightarrow> string"
  Number_digits :: "rat \<Rightarrow> string"

subsection \<open>URLSearchParams\<close>

text \<open>
  The list of name-value pairs of the URL standard, in order. Each definition is the
  method of the same name, on the list.
\<close>

type_synonym URLSearchParams = "(string \<times> string) list"

definition usp_get :: "URLSearchParams \<Rightarrow> string \<Rightarrow> string option" where
  \<comment> \<open>the value of the first pair named \<open>name\<close>, null when there is none\<close>
  "usp_get list name = map_of list name"

definition usp_getAll :: "URLSearchParams \<Rightarrow> string \<Rightarrow> string list" where
  "usp_getAll list name = map snd (filter (\<lambda>p. fst p = name) list)"

definition usp_has :: "URLSearchParams \<Rightarrow> string \<Rightarrow> bool" where
  "usp_has list name \<longleftrightarrow> name \<in> fst ` set list"

definition usp_append :: "URLSearchParams \<Rightarrow> string \<Rightarrow> string \<Rightarrow> URLSearchParams" where
  "usp_append list name v = list @ [(name, v)]"

definition usp_delete :: "URLSearchParams \<Rightarrow> string \<Rightarrow> URLSearchParams" where
  "usp_delete list name = filter (\<lambda>p. fst p \<noteq> name) list"

fun usp_set :: "URLSearchParams \<Rightarrow> string \<Rightarrow> string \<Rightarrow> URLSearchParams" where
  \<comment> \<open>the first pair named \<open>name\<close> takes the value, the others are removed; with no
      such pair, one is appended\<close>
  "usp_set [] name v = [(name, v)]"
| "usp_set (p # list) name v =
     (if fst p = name then (name, v) # usp_delete list name
      else p # usp_set list name v)"

section \<open>Scalar extraction\<close>

definition parse_message :: "string \<Rightarrow> string" where
  "parse_message key = ''An error occurred while parsing '' @ key"

definition getString :: "URLSearchParams \<Rightarrow> string \<Rightarrow> string option" where
  "getString params key =
     (case usp_get params key of
        None \<Rightarrow> None
      | Some param \<Rightarrow> if param = [] then None else Some param)"

definition getInt :: "URLSearchParams \<Rightarrow> string \<Rightarrow> jsnum option \<times> console" where
  "getInt params key =
     (case usp_get params key of
        None \<Rightarrow> (None, [])
      | Some param \<Rightarrow>
          if param = [] then (None, [])
          else try_catch (Inr (parseInt param)) (parse_message key))"

definition getFloat :: "URLSearchParams \<Rightarrow> string \<Rightarrow> jsnum option \<times> console" where
  "getFloat params key =
     (case usp_get params key of
        None \<Rightarrow> (None, [])
      | Some param \<Rightarrow>
          if param = [] then (None, [])
          else try_catch (Inr (parseFloat param)) (parse_message key))"

definition boolean_error :: js_error where
  \<comment> \<open>the message quotes the two words: \<open>CHR 0x22\<close> is the double quote\<close>
  "boolean_error =
     Error (''string must be either '' @ [CHR 0x22] @ ''true'' @ [CHR 0x22] @
            '' or '' @ [CHR 0x22] @ ''false'' @ [CHR 0x22])"

definition toBoolean :: "string \<Rightarrow> bool completion" where
  \<comment> \<open>the body that \<^verbatim>\<open>getBoolean\<close> and the callback of \<^verbatim>\<open>getBooleanArray\<close> share\<close>
  "toBoolean param =
     (if param \<noteq> ''true'' \<and> param \<noteq> ''false'' then Inl boolean_error
      else Inr (param = ''true''))"

definition getBoolean :: "URLSearchParams \<Rightarrow> string \<Rightarrow> bool option \<times> console" where
  "getBoolean params key =
     (case usp_get params key of
        None \<Rightarrow> (None, [])
      | Some param \<Rightarrow>
          if param = [] then (None, [])
          else try_catch (toBoolean param) (parse_message key))"

definition getDate :: "'d runtime \<Rightarrow> URLSearchParams \<Rightarrow> string \<Rightarrow> 'd option \<times> console" where
  "getDate rt params key =
     (case usp_get params key of
        None \<Rightarrow> (None, [])
      | Some param \<Rightarrow>
          if param = [] then (None, [])
          else try_catch (Inr (Date_new rt param)) (parse_message key))"

section \<open>Array extraction\<close>

fun map_completion :: "('a \<Rightarrow> 'b completion) \<Rightarrow> 'a list \<Rightarrow> 'b list completion" where
  \<comment> \<open>\<^verbatim>\<open>Array.prototype.map\<close> with a callback that may throw: the first throw ends it\<close>
  "map_completion f [] = Inr []"
| "map_completion f (x # xs) =
     (case f x of
        Inl error \<Rightarrow> Inl error
      | Inr y \<Rightarrow>
          (case map_completion f xs of
             Inl error \<Rightarrow> Inl error
           | Inr ys \<Rightarrow> Inr (y # ys)))"

definition getStringArray :: "URLSearchParams \<Rightarrow> string \<Rightarrow> string list option" where
  "getStringArray params key =
     (let paramArray = usp_getAll params key
      in if length paramArray = 0 then None else Some paramArray)"

definition getIntArray :: "URLSearchParams \<Rightarrow> string \<Rightarrow> jsnum list option \<times> console" where
  "getIntArray params key =
     (let paramArray = usp_getAll params key
      in if length paramArray = 0 then (None, [])
         else try_catch (Inr (map (\<lambda>param. parseInt param) paramArray)) (parse_message key))"

definition getFloatArray :: "URLSearchParams \<Rightarrow> string \<Rightarrow> jsnum list option \<times> console" where
  "getFloatArray params key =
     (let paramArray = usp_getAll params key
      in if length paramArray = 0 then (None, [])
         else try_catch (Inr (map (\<lambda>param. parseFloat param) paramArray)) (parse_message key))"

definition getBooleanArray :: "URLSearchParams \<Rightarrow> string \<Rightarrow> bool list option \<times> console" where
  "getBooleanArray params key =
     (let paramArray = usp_getAll params key
      in if length paramArray = 0 then (None, [])
         else try_catch (map_completion toBoolean paramArray) (parse_message key))"

definition getDateArray ::
  "'d runtime \<Rightarrow> URLSearchParams \<Rightarrow> string \<Rightarrow> 'd list option \<times> console" where
  "getDateArray rt params key =
     (let paramArray = usp_getAll params key
      in if length paramArray = 0 then (None, [])
         else try_catch (Inr (map (\<lambda>param. Date_new rt param) paramArray)) (parse_message key))"

section \<open>Pagination and ordering\<close>

record pagination =
  page :: "jsnum option"
  pageSize :: "jsnum option"

definition getPagination :: "URLSearchParams \<Rightarrow> pagination \<times> console" where
  \<comment> \<open>the two calls of \<^verbatim>\<open>getInt\<close> return normally, so the body of the try does too\<close>
  "getPagination params =
     (let (page, c1) = getInt params ''page'';
          (pageSize, c2) = getInt params ''pageSize'';
          body = (Inr \<lparr>page = page, pageSize = pageSize\<rparr> :: pagination completion)
      in case body of
           Inr r \<Rightarrow> (r, c1 @ c2)
         | Inl error \<Rightarrow>
             (\<lparr>page = None, pageSize = None\<rparr>,
              c1 @ c2 @ [(''An error occurred while parsing pagination'', error)]))"

record ordering =
  orderBy :: "string option"
  orderDirection :: "string option"

definition ordering_error :: js_error where
  "ordering_error =
     Error (''orderDirection must be either '' @ [CHR 0x22] @ ''asc'' @ [CHR 0x22] @
            '' or '' @ [CHR 0x22] @ ''desc'' @ [CHR 0x22])"

definition getOrdering :: "URLSearchParams \<Rightarrow> ordering \<times> console" where
  "getOrdering params =
     (let body =
            (let orderBy = getString params ''orderBy'';
                 orderDirection = getString params ''orderDirection''
             in if orderDirection \<noteq> None \<and> orderDirection \<noteq> Some ''asc'' \<and>
                   orderDirection \<noteq> Some ''desc''
                then Inl ordering_error
                else Inr \<lparr>orderBy = orderBy, orderDirection = orderDirection\<rparr>)
      in case body of
           Inr r \<Rightarrow> (r, [])
         | Inl error \<Rightarrow>
             (\<lparr>orderBy = None, orderDirection = None\<rparr>,
              [(''An error occurred while parsing ordering'', error)]))"

section \<open>The store of collections\<close>

text \<open>
  A \<^verbatim>\<open>URLSearchParams\<close> is a mutable object, and the transforms below build their
  result by mutating a new one. The store holds the list of every collection by
  reference; the references below \<open>allocated\<close> are the ones in use, and
  \<^verbatim>\<open>new URLSearchParams()\<close> takes the next.
\<close>

type_synonym ref = nat

record heap =
  objects :: "ref \<Rightarrow> URLSearchParams"
  allocated :: nat

definition new_URLSearchParams :: "heap \<Rightarrow> ref \<times> heap" where
  "new_URLSearchParams h =
     (allocated h, h\<lparr>objects := (objects h)(allocated h := []), allocated := Suc (allocated h)\<rparr>)"

definition heap_append :: "heap \<Rightarrow> ref \<Rightarrow> string \<Rightarrow> string \<Rightarrow> heap" where
  "heap_append h r name v = h\<lparr>objects := (objects h)(r := usp_append (objects h r) name v)\<rparr>"

definition heap_set :: "heap \<Rightarrow> ref \<Rightarrow> string \<Rightarrow> string \<Rightarrow> heap" where
  "heap_set h r name v = h\<lparr>objects := (objects h)(r := usp_set (objects h r) name v)\<rparr>"

definition heap_delete :: "heap \<Rightarrow> ref \<Rightarrow> string \<Rightarrow> heap" where
  "heap_delete h r name = h\<lparr>objects := (objects h)(r := usp_delete (objects h r) name)\<rparr>"

section \<open>Collection transforms\<close>

text \<open>
  A \<^verbatim>\<open>for (const [key, value] of params)\<close> loop runs over the pairs that \<open>params\<close>
  holds when the loop starts: its body changes \<open>newParams\<close> only.
\<close>

definition copySearchParams :: "heap \<Rightarrow> ref \<Rightarrow> ref \<times> heap" where
  "copySearchParams h params =
     (let (newParams, h1) = new_URLSearchParams h
      in (newParams,
          foldl (\<lambda>h' (key, value). heap_append h' newParams key value) h1 (objects h1 params)))"

definition deleteSearchParams :: "heap \<Rightarrow> ref \<Rightarrow> string list \<Rightarrow> ref \<times> heap" where
  "deleteSearchParams h params keysToDelete =
     (let (newParams, h1) = copySearchParams h params
      in (newParams, foldl (\<lambda>h' key. heap_delete h' newParams key) h1 keysToDelete))"

datatype 'd scalar = StringV string | NumberV jsnum | BooleanV bool | DateV 'd

datatype 'd ParamValue = Undefined | Scalar "'d scalar" | Array "'d scalar list"

definition toString :: "'d runtime \<Rightarrow> 'd scalar \<Rightarrow> string" where
  "toString rt v =
     (case v of
        StringV s \<Rightarrow> s
      | NumberV x \<Rightarrow> Number_toString (Number_digits rt) x
      | BooleanV b \<Rightarrow> if b then ''true'' else ''false''
      | DateV d \<Rightarrow> Date_toString rt d)"

text \<open>
  The argument \<open>params\<close> of the next two functions is \<^verbatim>\<open>Object.entries\<close> of the
  object passed: its properties in enumeration order, each key once.
\<close>

definition createSearchParams_entry ::
  "'d runtime \<Rightarrow> ref \<Rightarrow> heap \<Rightarrow> string \<times> 'd ParamValue \<Rightarrow> heap" where
  "createSearchParams_entry rt urlSearchParams h entry =
     (case entry of (key, value) \<Rightarrow>
        (case value of
           Undefined \<Rightarrow> h
         | Array items \<Rightarrow>
             foldl (\<lambda>h' item. heap_append h' urlSearchParams key (toString rt item)) h items
         | Scalar v \<Rightarrow> heap_set h urlSearchParams key (toString rt v)))"

definition createSearchParams ::
  "'d runtime \<Rightarrow> heap \<Rightarrow> (string \<times> 'd ParamValue) list \<Rightarrow> ref \<times> heap" where
  "createSearchParams rt h params =
     (let (urlSearchParams, h1) = new_URLSearchParams h
      in (urlSearchParams, foldl (createSearchParams_entry rt urlSearchParams) h1 params))"

definition addSearchParams_entry ::
  "'d runtime \<Rightarrow> ref \<Rightarrow> heap \<Rightarrow> string \<times> 'd ParamValue \<Rightarrow> heap" where
  "addSearchParams_entry rt newParams h entry =
     (case entry of (key, value) \<Rightarrow>
        (case value of
           Undefined \<Rightarrow> h
         | Array items \<Rightarrow>
             (let h1 = (if length items = 0 \<or> usp_has (objects h newParams) key
                        then heap_delete h newParams key else h)
              in foldl (\<lambda>h' item. heap_append h' newParams key (toString rt item)) h1 items)
         | Scalar v \<Rightarrow> heap_set h newParams key (toString rt v)))"

definition addSearchParams ::
  "'d runtime \<Rightarrow> heap \<Rightarrow> ref \<Rightarrow> (string \<times> 'd ParamValue) list \<Rightarrow> ref \<times> heap" where
  "addSearchParams rt h params paramsToAdd =
     (let (newParams, h1) = copySearchParams h params
      in (newParams, foldl (addSearchParams_entry rt newParams) h1 paramsToAdd))"

definition filterSearchParams :: "heap \<Rightarrow> ref \<Rightarrow> string list \<Rightarrow> ref \<times> heap" where
  "filterSearchParams h params keysToKeep =
     (let (newParams, h1) = new_URLSearchParams h
      in (newParams,
          foldl (\<lambda>h' (key, value).
                   if key \<in> set keysToKeep then heap_append h' newParams key value else h')
                h1 (objects h1 params)))"

section \<open>Conversion to a plain object\<close>

datatype objval = StringVal string | ArrayVal "string list"

type_synonym plain_object = "string \<rightharpoonup> objval"

definition inheritedProperty :: "string \<Rightarrow> bool" where
  \<comment> \<open>the names that \<^verbatim>\<open>{}\<close> inherits from \<^verbatim>\<open>Object.prototype\<close>: reading one of them
      does not give \<^verbatim>\<open>undefined\<close>\<close>
  "inheritedProperty key \<longleftrightarrow>
     key \<in> set [''constructor'', ''hasOwnProperty'', ''isPrototypeOf'',
                ''propertyIsEnumerable'', ''toLocaleString'', ''toString'', ''valueOf'',
                ''__proto__'', ''__defineGetter__'', ''__defineSetter__'',
                ''__lookupGetter__'', ''__lookupSetter__'']"

definition push_error :: js_error where
  "push_error = TypeError ''object[key].push is not a function''"

fun searchParamsToObject_loop ::
  "string list \<Rightarrow> URLSearchParams \<Rightarrow> plain_object \<Rightarrow> plain_object completion" where
  "searchParamsToObject_loop keysToArray [] object = Inr object"
| "searchParamsToObject_loop keysToArray ((key, value) # rest) object =
     (if key \<in> set keysToArray then
        (case object key of
           None \<Rightarrow>
             if inheritedProperty key then Inl push_error
             else searchParamsToObject_loop keysToArray rest (object(key \<mapsto> ArrayVal [value]))
         | Some (ArrayVal xs) \<Rightarrow>
             searchParamsToObject_loop keysToArray rest (object(key \<mapsto> ArrayVal (xs @ [value])))
         | Some (StringVal s) \<Rightarrow> Inl push_error)
      else if key = ''__proto__'' then searchParamsToObject_loop keysToArray rest object
      else searchParamsToObject_loop keysToArray rest (object(key \<mapsto> StringVal value)))"

definition searchParamsToObject ::
  "URLSearchParams \<Rightarrow> string list \<Rightarrow> plain_object completion" where
  "searchParamsToObject params keysToArray =
     searchParamsToObject_loop keysToArray params Map.empty"

section \<open>Notions the properties are stated with\<close>

text \<open>
  What a transform must return: a reference that was not in use before the call and is
  in use after it, in a store where every collection that was in use still holds the
  pairs it held.
\<close>

definition freshly_constructed :: "heap \<Rightarrow> ref \<times> heap \<Rightarrow> bool" where
  "freshly_constructed h res \<longleftrightarrow>
     (case res of (r, h') \<Rightarrow>
        \<not> r < allocated h \<and> r < allocated h' \<and>
        (\<forall>q \<in> {0..<allocated h}. objects h' q = objects h q))"

text \<open>
  A string that neither \<^verbatim>\<open>parseInt\<close> nor \<^verbatim>\<open>parseFloat\<close> can read a number from: it is
  empty, or its first character is not white space, a digit, a sign, a decimal point or
  the \<^verbatim>\<open>I\<close> of \<^verbatim>\<open>Infinity\<close>.
\<close>

definition notNumeric :: "string \<Rightarrow> bool" where
  "notNumeric s =
     (case s of
        [] \<Rightarrow> True
      | c # _ \<Rightarrow> \<not> isWhiteSpace c \<and> \<not> isDecimalDigit c \<and> c \<notin> set ''+-.I'')"

text \<open>A runtime and a store to run the functions on.\<close>

definition example_runtime :: "string runtime" where
  "example_runtime =
     \<lparr>Date_new = (\<lambda>s. s), Date_toString = (\<lambda>d. d), Number_digits = (\<lambda>q. ''?'')\<rparr>"

definition example_heap :: heap where
  "example_heap =
     \<lparr>objects = (\<lambda>r. if r = 0 then [(''b'', ''1''), (''c'', ''9''), (''b'', ''2'')] else []),
      allocated = 1\<rparr>"

section \<open>Lemmas about the collection and the store\<close>

lemma foldl_heap_append:
  "foldl (\<lambda>h' (key, value). heap_append h' n key value) h xs =
   h\<lparr>objects := (objects h)(n := objects h n @ xs)\<rparr>"
proof (induction xs arbitrary: h)
  case Nil
  show ?case by simp
next
  case (Cons x xs)
  show ?case
    by (simp only: foldl_Cons Cons.IH)
       (auto intro!: heap.equality simp: heap_append_def usp_append_def case_prod_beta fun_eq_iff)
qed

lemma copySearchParams_eq:
  "params < allocated h \<Longrightarrow>
   copySearchParams h params =
     (allocated h,
      h\<lparr>objects := (objects h)(allocated h := objects h params),
        allocated := Suc (allocated h)\<rparr>)"
  by (simp add: copySearchParams_def new_URLSearchParams_def foldl_heap_append)

lemma foldl_heap_delete:
  "foldl (\<lambda>h' key. heap_delete h' n key) h ks =
   h\<lparr>objects := (objects h)(n := filter (\<lambda>p. fst p \<notin> set ks) (objects h n))\<rparr>"
proof (induction ks arbitrary: h)
  case Nil
  show ?case by simp
next
  case (Cons k ks)
  have "filter (\<lambda>p. fst p \<notin> set ks) (usp_delete (objects h n) k) =
        filter (\<lambda>p. fst p \<notin> set (k # ks)) (objects h n)"
    by (auto simp: usp_delete_def intro: filter_cong)
  then show ?case
    by (simp only: foldl_Cons Cons.IH)
       (auto intro!: heap.equality simp: heap_delete_def fun_eq_iff)
qed

lemma deleteSearchParams_eq:
  "params < allocated h \<Longrightarrow>
   deleteSearchParams h params keysToDelete =
     (allocated h,
      h\<lparr>objects := (objects h)(allocated h :=
                      filter (\<lambda>p. fst p \<notin> set keysToDelete) (objects h params)),
        allocated := Suc (allocated h)\<rparr>)"
  by (simp add: deleteSearchParams_def copySearchParams_eq foldl_heap_delete)

lemma foldl_keep:
  "foldl (\<lambda>h' (key, value). if key \<in> set ks then heap_append h' n key value else h') h xs =
   h\<lparr>objects := (objects h)(n := objects h n @ filter (\<lambda>p. fst p \<in> set ks) xs)\<rparr>"
proof (induction xs arbitrary: h)
  case Nil
  show ?case by simp
next
  case (Cons x xs)
  show ?case
    by (simp only: foldl_Cons Cons.IH)
       (auto intro!: heap.equality simp: heap_append_def usp_append_def case_prod_beta fun_eq_iff)
qed

lemma filterSearchParams_eq:
  "params < allocated h \<Longrightarrow>
   filterSearchParams h params keysToKeep =
     (allocated h,
      h\<lparr>objects := (objects h)(allocated h :=
                      filter (\<lambda>p. fst p \<in> set keysToKeep) (objects h params)),
        allocated := Suc (allocated h)\<rparr>)"
  by (simp add: filterSearchParams_def new_URLSearchParams_def foldl_keep)

lemma foldl_append_items:
  "foldl (\<lambda>h' item. heap_append h' n key (f item)) h items =
   h\<lparr>objects := (objects h)(n := objects h n @ map (\<lambda>item. (key, f item)) items)\<rparr>"
proof (induction items arbitrary: h)
  case Nil
  show ?case by simp
next
  case (Cons x xs)
  show ?case
    by (simp only: foldl_Cons Cons.IH)
       (auto intro!: heap.equality simp: heap_append_def usp_append_def fun_eq_iff)
qed

lemma usp_getAll_append:
  "usp_getAll (xs @ ys) k = usp_getAll xs k @ usp_getAll ys k"
  by (simp add: usp_getAll_def)

lemma usp_getAll_items:
  "usp_getAll (map (\<lambda>item. (k', f item)) items) k = (if k' = k then map f items else [])"
  by (induction items) (simp_all add: usp_getAll_def)

lemma usp_getAll_delete:
  "usp_getAll (usp_delete xs k') k = (if k = k' then [] else usp_getAll xs k)"
  by (induction xs) (auto simp: usp_getAll_def usp_delete_def)

lemma usp_getAll_set:
  "usp_getAll (usp_set xs k' v) k = (if k = k' then [v] else usp_getAll xs k)"
proof (induction xs)
  case Nil
  show ?case by (simp add: usp_getAll_def)
next
  case (Cons p xs)
  have d: "usp_getAll (usp_delete xs k') k = (if k = k' then [] else usp_getAll xs k)"
    by (rule usp_getAll_delete)
  show ?case
  proof (cases "fst p = k'")
    case True
    then show ?thesis using d by (auto simp: usp_getAll_def)
  next
    case False
    then show ?thesis using Cons.IH by (auto simp: usp_getAll_def)
  qed
qed

lemma usp_has_getAll: "usp_has xs k \<longleftrightarrow> usp_getAll xs k \<noteq> []"
  by (induction xs) (auto simp: usp_has_def usp_getAll_def)

lemma createSearchParams_entry_objects:
  "objects (createSearchParams_entry rt n h (k, v)) =
     (objects h)(n :=
        (case v of
           Undefined \<Rightarrow> objects h n
         | Array items \<Rightarrow> objects h n @ map (\<lambda>item. (k, toString rt item)) items
         | Scalar s \<Rightarrow> usp_set (objects h n) k (toString rt s)))"
  by (cases v) (auto simp: createSearchParams_entry_def foldl_append_items heap_set_def)

lemma createSearchParams_entry_allocated:
  "allocated (createSearchParams_entry rt n h e) = allocated h"
  by (cases e; cases "snd e")
     (auto simp: createSearchParams_entry_def foldl_append_items heap_set_def)

lemma createSearchParams_fold_frame:
  "allocated (foldl (createSearchParams_entry rt n) h params) = allocated h \<and>
   (\<forall>r. r \<noteq> n \<longrightarrow> objects (foldl (createSearchParams_entry rt n) h params) r = objects h r)"
proof (induction params arbitrary: h)
  case Nil
  show ?case by simp
next
  case (Cons e params)
  show ?case
    by (cases e) (simp add: Cons.IH createSearchParams_entry_allocated
                            createSearchParams_entry_objects)
qed

lemma createSearchParams_fold_getAll:
  "distinct (map fst params) \<Longrightarrow>
   usp_getAll (objects (foldl (createSearchParams_entry rt n) h params) n) k =
     (case map_of params k of
        None \<Rightarrow> usp_getAll (objects h n) k
      | Some Undefined \<Rightarrow> usp_getAll (objects h n) k
      | Some (Array items) \<Rightarrow> usp_getAll (objects h n) k @ map (toString rt) items
      | Some (Scalar s) \<Rightarrow> [toString rt s])"
proof (induction params arbitrary: h)
  case Nil
  show ?case by simp
next
  case (Cons e params)
  obtain k' v' where e: "e = (k', v')" by (cases e)
  let ?h = "createSearchParams_entry rt n h (k', v')"
  from Cons.prems e have dist: "distinct (map fst params)" and notin: "k' \<notin> fst ` set params"
    by auto
  have IH: "usp_getAll (objects (foldl (createSearchParams_entry rt n) ?h params) n) k =
     (case map_of params k of
        None \<Rightarrow> usp_getAll (objects ?h n) k
      | Some Undefined \<Rightarrow> usp_getAll (objects ?h n) k
      | Some (Array items) \<Rightarrow> usp_getAll (objects ?h n) k @ map (toString rt) items
      | Some (Scalar s) \<Rightarrow> [toString rt s])"
    by (rule Cons.IH [OF dist])
  show ?case
  proof (cases "k' = k")
    case True
    with notin have "map_of params k = None"
      by (simp add: map_of_eq_None_iff)
    with IH True e show ?thesis
      by (cases v')
         (simp_all add: createSearchParams_entry_objects usp_getAll_append usp_getAll_items
                        usp_getAll_set)
  next
    case False
    then have "usp_getAll (objects ?h n) k = usp_getAll (objects h n) k"
      by (cases v')
         (simp_all add: createSearchParams_entry_objects usp_getAll_append usp_getAll_items
                        usp_getAll_set)
    with IH False e show ?thesis
      by (simp split: option.splits ParamValue.splits)
  qed
qed

lemma createSearchParams_getAll:
  assumes "distinct (map fst params)"
  shows "usp_getAll (objects (snd (createSearchParams rt h params))
                             (fst (createSearchParams rt h params))) k =
     (case map_of params k of
        None \<Rightarrow> []
      | Some Undefined \<Rightarrow> []
      | Some (Array items) \<Rightarrow> map (toString rt) items
      | Some (Scalar s) \<Rightarrow> [toString rt s])"
  using createSearchParams_fold_getAll [OF assms, of rt "allocated h"
          "snd (new_URLSearchParams h)" k]
  by (simp add: createSearchParams_def new_URLSearchParams_def usp_getAll_def
           split: option.splits ParamValue.splits)

lemma addSearchParams_entry_allocated:
  "allocated (addSearchParams_entry rt n h e) = allocated h"
  by (cases e; cases "snd e")
     (auto simp: addSearchParams_entry_def foldl_append_items heap_set_def heap_delete_def
                 Let_def)

lemma addSearchParams_entry_frame:
  "r \<noteq> n \<Longrightarrow> objects (addSearchParams_entry rt n h e) r = objects h r"
  by (cases e; cases "snd e")
     (auto simp: addSearchParams_entry_def foldl_append_items heap_set_def heap_delete_def
                 Let_def)

lemma addSearchParams_fold_frame:
  "allocated (foldl (addSearchParams_entry rt n) h params) = allocated h \<and>
   (\<forall>r. r \<noteq> n \<longrightarrow> objects (foldl (addSearchParams_entry rt n) h params) r = objects h r)"
proof (induction params arbitrary: h)
  case Nil
  show ?case by simp
next
  case (Cons e params)
  show ?case
    by (simp add: Cons.IH addSearchParams_entry_allocated addSearchParams_entry_frame)
qed

lemma freshly_constructed_copy:
  "params < allocated h \<Longrightarrow> freshly_constructed h (copySearchParams h params)"
  by (simp add: copySearchParams_eq freshly_constructed_def)

lemma freshly_constructed_delete:
  "params < allocated h \<Longrightarrow> freshly_constructed h (deleteSearchParams h params keys)"
  by (simp add: deleteSearchParams_eq freshly_constructed_def)

lemma freshly_constructed_filter:
  "params < allocated h \<Longrightarrow> freshly_constructed h (filterSearchParams h params keys)"
  by (simp add: filterSearchParams_eq freshly_constructed_def)

lemma freshly_constructed_add:
  "params < allocated h \<Longrightarrow> freshly_constructed h (addSearchParams rt h params toAdd)"
  by (simp add: addSearchParams_def copySearchParams_eq freshly_constructed_def
                addSearchParams_fold_frame)

lemma freshly_constructed_create:
  "freshly_constructed h (createSearchParams rt h entries)"
  by (simp add: createSearchParams_def new_URLSearchParams_def freshly_constructed_def
                createSearchParams_fold_frame)

lemmas parse_defs = parseInt_def parseFloat_def isWhiteSpace_def isDecimalDigit_def
  radixDigit_def digitValue_def mathInt_def

lemma usp_get_None: "usp_get params key = None \<longleftrightarrow> \<not> usp_has params key"
  by (simp add: usp_get_def usp_has_def map_of_eq_None_iff)

lemma parseInt_notNumeric: "notNumeric s \<Longrightarrow> parseInt s = NaN"
proof (cases s)
  case Nil
  then show ?thesis by (simp add: parseInt_def)
next
  case (Cons c r)
  assume "notNumeric s"
  with Cons have c: "\<not> isWhiteSpace c" "\<not> radixDigit 10 c" "c \<noteq> CHR ''+''" "c \<noteq> CHR ''-''"
    by (simp_all add: notNumeric_def isDecimalDigit_def)
  have "radixDigit 10 CHR ''0''"
    by (simp add: radixDigit_def digitValue_def)
  with c have "c \<noteq> CHR ''0''" by auto
  with c Cons show ?thesis
    by (simp add: parseInt_def)
qed

lemma parseFloat_notNumeric: "notNumeric s \<Longrightarrow> parseFloat s = NaN"
proof (cases s)
  case Nil
  then show ?thesis by (simp add: parseFloat_def)
next
  case (Cons c r)
  assume "notNumeric s"
  with Cons have c: "\<not> isWhiteSpace c" "\<not> isDecimalDigit c" "c \<noteq> CHR ''+''" "c \<noteq> CHR ''-''"
      "c \<noteq> CHR ''.''" "c \<noteq> CHR ''I''"
    by (simp_all add: notNumeric_def)
  with Cons show ?thesis
    by (simp add: parseFloat_def)
qed

lemma usp_getAll_filter:
  "usp_getAll (filter (\<lambda>p. Q (fst p)) xs) k = (if Q k then usp_getAll xs k else [])"
  by (induction xs) (auto simp: usp_getAll_def)

lemma addSearchParams_array:
  "params < allocated h \<Longrightarrow>
   addSearchParams rt h params [(key, Array items)] =
     (allocated h,
      h\<lparr>objects := (objects h)(allocated h :=
           (if items = [] \<or> usp_has (objects h params) key
            then usp_delete (objects h params) key else objects h params) @
           map (\<lambda>item. (key, toString rt item)) items),
        allocated := Suc (allocated h)\<rparr>)"
  by (auto simp: addSearchParams_def copySearchParams_eq addSearchParams_entry_def
                 foldl_append_items heap_delete_def)

section \<open>The properties\<close>

text \<open>
  Claim C1. \<^verbatim>\<open>getIntArray\<close> on a key with the values \<^verbatim>\<open>1\<close>, \<^verbatim>\<open>2\<close>, \<^verbatim>\<open>x\<close> should return
  absent and log once, the try/catch around the parse being there for that. The code
  returns the array \<open>[1, 2, NaN]\<close> and logs nothing: \<^verbatim>\<open>parseInt\<close> answers an
  unreadable string with NaN and does not throw, so the catch never runs. On the values
  \<^verbatim>\<open>1\<close>, \<^verbatim>\<open>2\<close> it returns \<open>[1, 2]\<close>.
\<close>

theorem getIntArray_keeps_NaN:
  "getIntArray [(''a'', ''1''), (''a'', ''2''), (''a'', ''x'')] ''a'' =
     (Some [Finite 1, Finite 2, NaN], []) \<and>
   getIntArray [(''a'', ''1''), (''a'', ''2'')] ''a'' = (Some [Finite 1, Finite 2], [])"
  by (simp add: getIntArray_def usp_getAll_def try_catch_def parse_defs)

text \<open>
  Claim C2. \<^verbatim>\<open>getInt\<close> returns 42 on the value \<^verbatim>\<open>42\<close> and absent on the empty value.
  On the value \<^verbatim>\<open>abc\<close> it should return absent and log; the code returns NaN and logs
  nothing, for the reason given at C1.
\<close>

theorem getInt_returns_NaN:
  "getInt [(''k'', ''abc'')] ''k'' = (Some NaN, []) \<and>
   getInt [(''k'', ''42'')] ''k'' = (Some (Finite 42), []) \<and>
   getInt [(''k'', '''')] ''k'' = (None, [])"
  by (simp add: getInt_def usp_get_def try_catch_def parse_defs)

text \<open>
  Claim C3. \<^verbatim>\<open>getBoolean\<close> returns true exactly when the first value of the key is the
  string \<^verbatim>\<open>true\<close>, false exactly when it is \<^verbatim>\<open>false\<close>, and for every other first value
  that is not empty it returns absent and logs the error.
\<close>

theorem getBoolean_exact:
  "(fst (getBoolean params key) = Some True \<longleftrightarrow> usp_get params key = Some ''true'') \<and>
   (fst (getBoolean params key) = Some False \<longleftrightarrow> usp_get params key = Some ''false'') \<and>
   (usp_get params key = Some param \<and> param \<noteq> [] \<and> param \<noteq> ''true'' \<and> param \<noteq> ''false'' \<longrightarrow>
      getBoolean params key = (None, [(parse_message key, boolean_error)]))"
  by (auto simp: getBoolean_def try_catch_def toBoolean_def split: option.splits)

theorem getBoolean_exact_witness:
  "usp_get [(''flag'', ''TRUE'')] ''flag'' = Some ''TRUE'' \<and>
   getBoolean [(''flag'', ''TRUE'')] ''flag'' = (None, [(parse_message ''flag'', boolean_error)]) \<and>
   fst (getBoolean [(''flag'', ''true'')] ''flag'') = Some True"
  using getBoolean_exact [of "[(''flag'', ''TRUE'')]" "''flag''" "''TRUE''"]
        getBoolean_exact [of "[(''flag'', ''true'')]" "''flag''" "''''"]
  by (simp add: usp_get_def)

text \<open>
  Claim C4. When the first value of \<^verbatim>\<open>orderDirection\<close> is not empty and is neither
  \<^verbatim>\<open>asc\<close> nor \<^verbatim>\<open>desc\<close>, \<^verbatim>\<open>getOrdering\<close> returns both fields absent and logs, whatever
  \<^verbatim>\<open>orderBy\<close> holds.
\<close>

theorem getOrdering_resets_both:
  "usp_get params ''orderDirection'' = Some d \<Longrightarrow> d \<noteq> [] \<Longrightarrow> d \<noteq> ''asc'' \<Longrightarrow> d \<noteq> ''desc'' \<Longrightarrow>
   getOrdering params =
     (\<lparr>orderBy = None, orderDirection = None\<rparr>,
      [(''An error occurred while parsing ordering'', ordering_error)])"
  by (simp add: getOrdering_def getString_def)

theorem getOrdering_resets_both_witness:
  "getString [(''orderBy'', ''name''), (''orderDirection'', ''sideways'')] ''orderBy'' = Some ''name'' \<and>
   getOrdering [(''orderBy'', ''name''), (''orderDirection'', ''sideways'')] =
     (\<lparr>orderBy = None, orderDirection = None\<rparr>,
      [(''An error occurred while parsing ordering'', ordering_error)])"
proof -
  have g: "usp_get [(''orderBy'', ''name''), (''orderDirection'', ''sideways'')] ''orderDirection''
             = Some ''sideways''"
    by (simp add: usp_get_def)
  have s: "getString [(''orderBy'', ''name''), (''orderDirection'', ''sideways'')] ''orderBy''
             = Some ''name''"
    by (simp add: getString_def usp_get_def)
  show ?thesis
    using getOrdering_resets_both [OF g] s by simp
qed

text \<open>
  Claim C5. When the key has no value, or its first value is the empty string, each of
  \<^verbatim>\<open>getString\<close>, \<^verbatim>\<open>getInt\<close>, \<^verbatim>\<open>getFloat\<close>, \<^verbatim>\<open>getBoolean\<close> and \<^verbatim>\<open>getDate\<close> returns
  absent and logs nothing.
\<close>

theorem scalar_extractors_absent:
  "\<not> usp_has params key \<or> usp_get params key = Some '''' \<Longrightarrow>
   getString params key = None \<and>
   getInt params key = (None, []) \<and>
   getFloat params key = (None, []) \<and>
   getBoolean params key = (None, []) \<and>
   getDate rt params key = (None, [])"
proof -
  assume "\<not> usp_has params key \<or> usp_get params key = Some ''''"
  then have "usp_get params key = None \<or> usp_get params key = Some ''''"
    by (simp add: usp_get_None)
  then show ?thesis
    by (auto simp: getString_def getInt_def getFloat_def getBoolean_def getDate_def)
qed

theorem scalar_extractors_absent_witness:
  "\<not> usp_has [(''a'', '''')] ''b'' \<and> usp_get [(''a'', '''')] ''a'' = Some '''' \<and>
   getInt [(''a'', '''')] ''b'' = (None, []) \<and>
   getDate example_runtime [(''a'', '''')] ''a'' = (None, [])"
proof -
  have b: "\<not> usp_has [(''a'', '''')] ''b''"
    by (simp add: usp_has_def)
  have a: "usp_get [(''a'', '''')] ''a'' = Some ''''"
    by (simp add: usp_get_def)
  show ?thesis
    using scalar_extractors_absent [OF disjI1 [OF b], of example_runtime]
          scalar_extractors_absent [OF disjI2 [OF a], of example_runtime] a b
    by simp
qed

text \<open>
  Claim C6. Creating a collection from the object with \<open>a\<close> the number 1 and \<open>b\<close> the
  array of the strings \<open>x\<close> and \<open>y\<close>, and converting it with \<open>b\<close> as an array key,
  gives the object with \<open>a\<close> the string \<open>1\<close> and \<open>b\<close> the array of \<open>x\<close> and \<open>y\<close>.
  For every object passed to
  \<^verbatim>\<open>createSearchParams\<close>: a key whose value is undefined does not occur in the result,
  the values of an array occur under its key in element order, a scalar occurs once,
  and an integer up to \<open>2 ^ 53\<close> in magnitude is written as its decimal digits.
\<close>

theorem createSearchParams_round_trip:
  "(case createSearchParams rt h
           [(''a'', Scalar (NumberV (Finite 1))), (''b'', Array [StringV ''x'', StringV ''y''])]
    of (r, h') \<Rightarrow> searchParamsToObject (objects h' r) [''b'']) =
     Inr [''a'' \<mapsto> StringVal ''1'', ''b'' \<mapsto> ArrayVal [''x'', ''y'']] \<and>
   (distinct (map fst params) \<longrightarrow>
      (case createSearchParams rt h params of (r, h') \<Rightarrow>
         (\<forall>key. (key, Undefined) \<in> set params \<longrightarrow> \<not> usp_has (objects h' r) key) \<and>
         (\<forall>key items. (key, Array items) \<in> set params \<longrightarrow>
            usp_getAll (objects h' r) key = map (toString rt) items) \<and>
         (\<forall>key v. (key, Scalar v) \<in> set params \<longrightarrow>
            usp_getAll (objects h' r) key = [toString rt v]))) \<and>
   (\<forall>i :: int. \<bar>i\<bar> \<le> 2 ^ 53 \<longrightarrow>
      toString rt (NumberV (Finite (of_int i))) =
        (if i < 0 then ''-'' @ decimalDigits (nat (- i)) else decimalDigits (nat i)))"
proof -
  have one: "(case createSearchParams rt h
           [(''a'', Scalar (NumberV (Finite 1))), (''b'', Array [StringV ''x'', StringV ''y''])]
    of (r, h') \<Rightarrow> searchParamsToObject (objects h' r) [''b'']) =
     Inr [''a'' \<mapsto> StringVal ''1'', ''b'' \<mapsto> ArrayVal [''x'', ''y'']]"
    by (simp add: createSearchParams_def new_URLSearchParams_def createSearchParams_entry_def
                  heap_set_def heap_append_def usp_append_def toString_def Number_toString_def
                  searchParamsToObject_def inheritedProperty_def)
  have two: "distinct (map fst params) \<longrightarrow>
      (case createSearchParams rt h params of (r, h') \<Rightarrow>
         (\<forall>key. (key, Undefined) \<in> set params \<longrightarrow> \<not> usp_has (objects h' r) key) \<and>
         (\<forall>key items. (key, Array items) \<in> set params \<longrightarrow>
            usp_getAll (objects h' r) key = map (toString rt) items) \<and>
         (\<forall>key v. (key, Scalar v) \<in> set params \<longrightarrow>
            usp_getAll (objects h' r) key = [toString rt v]))"
  proof
    assume d: "distinct (map fst params)"
    show "case createSearchParams rt h params of (r, h') \<Rightarrow>
         (\<forall>key. (key, Undefined) \<in> set params \<longrightarrow> \<not> usp_has (objects h' r) key) \<and>
         (\<forall>key items. (key, Array items) \<in> set params \<longrightarrow>
            usp_getAll (objects h' r) key = map (toString rt) items) \<and>
         (\<forall>key v. (key, Scalar v) \<in> set params \<longrightarrow>
            usp_getAll (objects h' r) key = [toString rt v])"
      using d by (simp add: case_prod_beta usp_has_getAll createSearchParams_getAll [OF d])
  qed
  have three: "\<forall>i :: int. \<bar>i\<bar> \<le> 2 ^ 53 \<longrightarrow>
      toString rt (NumberV (Finite (of_int i))) =
        (if i < 0 then ''-'' @ decimalDigits (nat (- i)) else decimalDigits (nat i))"
  proof (intro allI impI)
    fix i :: int
    assume "\<bar>i\<bar> \<le> 2 ^ 53"
    then have "(of_int \<bar>i\<bar> :: rat) \<le> of_int (2 ^ 53)"
      by (simp only: of_int_le_iff)
    then have "\<bar>of_int i :: rat\<bar> \<le> 2 ^ 53"
      by simp
    then show "toString rt (NumberV (Finite (of_int i))) =
        (if i < 0 then ''-'' @ decimalDigits (nat (- i)) else decimalDigits (nat i))"
      by (simp add: toString_def Number_toString_def del: decimalDigits.simps)
  qed
  from one two three show ?thesis by blast
qed

theorem createSearchParams_round_trip_witness:
  "distinct (map fst [(''a'', Undefined :: string ParamValue), (''b'', Scalar (NumberV (Finite 5)))]) \<and>
   \<not> usp_has
       (objects (snd (createSearchParams example_runtime example_heap
                        [(''a'', Undefined), (''b'', Scalar (NumberV (Finite 5)))]))
                (fst (createSearchParams example_runtime example_heap
                        [(''a'', Undefined), (''b'', Scalar (NumberV (Finite 5)))]))) ''a'' \<and>
   usp_getAll
       (objects (snd (createSearchParams example_runtime example_heap
                        [(''a'', Undefined), (''b'', Scalar (NumberV (Finite 5)))]))
                (fst (createSearchParams example_runtime example_heap
                        [(''a'', Undefined), (''b'', Scalar (NumberV (Finite 5)))]))) ''b'' = [''5'']"
proof -
  have t: "toString example_runtime (NumberV (Finite 5)) = ''5''"
    by (simp add: toString_def Number_toString_def)
  show ?thesis
    using createSearchParams_round_trip
            [of example_runtime example_heap
                "[(''a'', Undefined), (''b'', Scalar (NumberV (Finite 5)))]"] t
    by (simp add: case_prod_beta)
qed

text \<open>
  Claim C7. When the key already occurs in the collection, \<^verbatim>\<open>addSearchParams\<close> with an
  array for that key returns the collection without its old pairs of that key, followed
  by one pair per element: with \<open>[3, 4]\<close> the key has exactly the values \<^verbatim>\<open>3\<close>, \<^verbatim>\<open>4\<close>,
  with \<open>[]\<close> it does not occur.
\<close>

theorem addSearchParams_replaces_array:
  "params < allocated h \<Longrightarrow> usp_has (objects h params) key \<Longrightarrow>
   (case addSearchParams rt h params [(key, Array items)] of (r, h') \<Rightarrow>
      objects h' r =
        usp_delete (objects h params) key @ map (\<lambda>item. (key, toString rt item)) items \<and>
      usp_getAll (objects h' r) key = map (toString rt) items) \<and>
   (case addSearchParams rt h params [(key, Array [NumberV (Finite 3), NumberV (Finite 4)])]
    of (r, h') \<Rightarrow> usp_getAll (objects h' r) key = [''3'', ''4'']) \<and>
   (case addSearchParams rt h params [(key, Array [])] of (r, h') \<Rightarrow>
      \<not> usp_has (objects h' r) key)"
proof -
  assume a: "params < allocated h" and b: "usp_has (objects h params) key"
  have eq: "\<And>xs. addSearchParams rt h params [(key, Array xs)] =
      (allocated h,
       h\<lparr>objects := (objects h)(allocated h :=
            usp_delete (objects h params) key @ map (\<lambda>item. (key, toString rt item)) xs),
         allocated := Suc (allocated h)\<rparr>)"
    using a b by (simp add: addSearchParams_array)
  have getAll: "\<And>xs. usp_getAll
      (usp_delete (objects h params) key @ map (\<lambda>item. (key, toString rt item)) xs) key =
      map (toString rt) xs"
    by (simp add: usp_getAll_append usp_getAll_delete usp_getAll_items)
  have t: "map (toString rt) [NumberV (Finite 3), NumberV (Finite 4)] = [''3'', ''4'']"
    by (simp add: toString_def Number_toString_def)
  have gen: "case addSearchParams rt h params [(key, Array items)] of (r, h') \<Rightarrow>
      objects h' r =
        usp_delete (objects h params) key @ map (\<lambda>item. (key, toString rt item)) items \<and>
      usp_getAll (objects h' r) key = map (toString rt) items"
    by (simp only: eq case_prod_conv) (simp add: getAll)
  have two: "case addSearchParams rt h params
                    [(key, Array [NumberV (Finite 3), NumberV (Finite 4)])]
             of (r, h') \<Rightarrow> usp_getAll (objects h' r) key = [''3'', ''4'']"
  proof -
    have "usp_getAll (usp_delete (objects h params) key @
            map (\<lambda>item. (key, toString rt item)) [NumberV (Finite 3), NumberV (Finite 4)]) key =
          [''3'', ''4'']"
      by (simp only: getAll t)
    then show ?thesis
      by (simp only: eq case_prod_conv) simp
  qed
  have none: "case addSearchParams rt h params [(key, Array [])] of (r, h') \<Rightarrow>
      \<not> usp_has (objects h' r) key"
    by (simp only: eq case_prod_conv) (simp add: usp_has_getAll usp_getAll_delete)
  from gen two none show ?thesis
    by blast
qed

theorem addSearchParams_replaces_array_witness:
  "usp_has (objects example_heap 0) ''b'' \<and>
   usp_getAll (objects example_heap 0) ''b'' = [''1'', ''2''] \<and>
   objects (snd (addSearchParams example_runtime example_heap 0
                   [(''b'', Array [NumberV (Finite 3), NumberV (Finite 4)])]))
           (fst (addSearchParams example_runtime example_heap 0
                   [(''b'', Array [NumberV (Finite 3), NumberV (Finite 4)])])) =
     [(''c'', ''9''), (''b'', ''3''), (''b'', ''4'')] \<and>
   \<not> usp_has (objects (snd (addSearchParams example_runtime example_heap 0 [(''b'', Array [])]))
                       (fst (addSearchParams example_runtime example_heap 0 [(''b'', Array [])])))
               ''b''"
proof -
  have a: "(0 :: nat) < allocated example_heap"
    by (simp add: example_heap_def)
  have o: "objects example_heap 0 = [(''b'', ''1''), (''c'', ''9''), (''b'', ''2'')]"
    by (simp add: example_heap_def)
  have b: "usp_has (objects example_heap 0) ''b''"
    by (simp add: o usp_has_def)
  have t: "toString example_runtime (NumberV (Finite 3)) = ''3''"
          "toString example_runtime (NumberV (Finite 4)) = ''4''"
    by (simp_all add: toString_def Number_toString_def)
  show ?thesis
    using addSearchParams_replaces_array
            [OF a b, of example_runtime "[NumberV (Finite 3), NumberV (Finite 4)]"] b o t
    by (simp add: case_prod_beta usp_delete_def usp_getAll_def)
qed

text \<open>
  Claim C8. \<^verbatim>\<open>copySearchParams\<close>, \<^verbatim>\<open>deleteSearchParams\<close>, \<^verbatim>\<open>filterSearchParams\<close>,
  \<^verbatim>\<open>addSearchParams\<close> and \<^verbatim>\<open>createSearchParams\<close> each return a newly constructed
  collection and leave every collection of the store, their input among them, as it
  was. The copy holds the same pairs in the same order as its input, is another object,
  and appending to it, setting in it or deleting from it does not change the input.
\<close>

theorem transforms_return_new_collection:
  "params < allocated h \<Longrightarrow>
   freshly_constructed h (copySearchParams h params) \<and>
   freshly_constructed h (deleteSearchParams h params keys) \<and>
   freshly_constructed h (filterSearchParams h params keys) \<and>
   freshly_constructed h (addSearchParams rt h params toAdd) \<and>
   freshly_constructed h (createSearchParams rt h entries) \<and>
   (case copySearchParams h params of (r, h') \<Rightarrow>
      r \<noteq> params \<and> objects h' r = objects h params \<and>
      objects (heap_append h' r name v) params = objects h params \<and>
      objects (heap_set h' r name v) params = objects h params \<and>
      objects (heap_delete h' r name) params = objects h params)"
  by (simp add: freshly_constructed_copy freshly_constructed_delete
        freshly_constructed_filter freshly_constructed_add freshly_constructed_create)
     (simp add: copySearchParams_eq heap_append_def heap_set_def heap_delete_def)

theorem transforms_return_new_collection_witness:
  "(0 :: nat) < allocated example_heap \<and>
   fst (copySearchParams example_heap 0) = 1 \<and>
   objects (snd (copySearchParams example_heap 0)) 1 =
     [(''b'', ''1''), (''c'', ''9''), (''b'', ''2'')] \<and>
   objects (heap_delete (snd (copySearchParams example_heap 0)) 1 ''b'') 0 =
     [(''b'', ''1''), (''c'', ''9''), (''b'', ''2'')] \<and>
   freshly_constructed example_heap (deleteSearchParams example_heap 0 [''b''])"
proof -
  have a: "(0 :: nat) < allocated example_heap"
    by (simp add: example_heap_def)
  have o: "objects example_heap 0 = [(''b'', ''1''), (''c'', ''9''), (''b'', ''2'')]"
    by (simp add: example_heap_def)
  have f: "fst (copySearchParams example_heap 0) = 1"
    using freshly_constructed_copy [OF a] a
    by (simp add: copySearchParams_eq example_heap_def)
  show ?thesis
    using transforms_return_new_collection
            [OF a, of "[''b'']" example_runtime "[]" "[]" "''b''" "''''"] a o f
    by (simp add: case_prod_beta)
qed

text \<open>
  Claim C9. \<^verbatim>\<open>deleteSearchParams\<close> returns the pairs whose key is not among the keys
  given, \<^verbatim>\<open>filterSearchParams\<close> the pairs whose key is among them, both in the order of
  the input: the keys of the result are the set difference and the intersection, and a
  key that survives keeps all its values in order.
\<close>

theorem delete_and_filter_by_key:
  "params < allocated h \<Longrightarrow>
   (case deleteSearchParams h params keys of (r, h') \<Rightarrow>
      objects h' r = filter (\<lambda>p. fst p \<notin> set keys) (objects h params) \<and>
      fst ` set (objects h' r) = fst ` set (objects h params) - set keys \<and>
      (\<forall>k. k \<notin> set keys \<longrightarrow> usp_getAll (objects h' r) k = usp_getAll (objects h params) k)) \<and>
   (case filterSearchParams h params keys of (r, h') \<Rightarrow>
      objects h' r = filter (\<lambda>p. fst p \<in> set keys) (objects h params) \<and>
      fst ` set (objects h' r) = fst ` set (objects h params) \<inter> set keys \<and>
      (\<forall>k. k \<in> set keys \<longrightarrow> usp_getAll (objects h' r) k = usp_getAll (objects h params) k))"
proof -
  assume a: "params < allocated h"
  have d: "fst ` set (filter (\<lambda>p. fst p \<notin> set keys) (objects h params)) =
           fst ` set (objects h params) - set keys"
    by auto
  have k: "fst ` set (filter (\<lambda>p. fst p \<in> set keys) (objects h params)) =
           fst ` set (objects h params) \<inter> set keys"
    by auto
  show ?thesis
    using a d k
    by (simp add: deleteSearchParams_eq filterSearchParams_eq
                  usp_getAll_filter [where Q = "\<lambda>k. k \<notin> set keys"]
                  usp_getAll_filter [where Q = "\<lambda>k. k \<in> set keys"])
qed

theorem delete_and_filter_by_key_witness:
  "objects (snd (deleteSearchParams example_heap 0 [''b'', ''z''])) 
           (fst (deleteSearchParams example_heap 0 [''b'', ''z''])) = [(''c'', ''9'')] \<and>
   objects (snd (filterSearchParams example_heap 0 [''b'', ''z'']))
           (fst (filterSearchParams example_heap 0 [''b'', ''z''])) = [(''b'', ''1''), (''b'', ''2'')]"
proof -
  have a: "(0 :: nat) < allocated example_heap"
    by (simp add: example_heap_def)
  have o: "objects example_heap 0 = [(''b'', ''1''), (''c'', ''9''), (''b'', ''2'')]"
    by (simp add: example_heap_def)
  show ?thesis
    using delete_and_filter_by_key [OF a, of "[''b'', ''z'']"] o
    by (simp add: case_prod_beta)
qed

text \<open>
  Claim C10. For a key with at least one value, \<^verbatim>\<open>getIntArray\<close> and \<^verbatim>\<open>getFloatArray\<close>
  never return absent and never log: they return the parse of each value, as many
  elements as the key has pairs, with NaN for a value that no number can be read from.
\<close>

theorem numeric_arrays_never_absent:
  "usp_getAll params key \<noteq> [] \<Longrightarrow>
   getIntArray params key = (Some (map parseInt (usp_getAll params key)), []) \<and>
   getFloatArray params key = (Some (map parseFloat (usp_getAll params key)), []) \<and>
   length (map parseInt (usp_getAll params key)) = length (filter (\<lambda>p. fst p = key) params) \<and>
   length (map parseFloat (usp_getAll params key)) = length (filter (\<lambda>p. fst p = key) params) \<and>
   (\<forall>i. i < length (usp_getAll params key) \<and> notNumeric (usp_getAll params key ! i) \<longrightarrow>
      map parseInt (usp_getAll params key) ! i = NaN \<and>
      map parseFloat (usp_getAll params key) ! i = NaN)"
proof -
  assume "usp_getAll params key \<noteq> []"
  moreover have "length (usp_getAll params key) = length (filter (\<lambda>p. fst p = key) params)"
    by (simp add: usp_getAll_def)
  ultimately show ?thesis
    by (simp add: getIntArray_def getFloatArray_def try_catch_def parseInt_notNumeric
                  parseFloat_notNumeric)
qed

theorem numeric_arrays_never_absent_witness:
  "usp_getAll [(''a'', ''1.5''), (''b'', ''7''), (''a'', ''x'')] ''a'' = [''1.5'', ''x''] \<and>
   getIntArray [(''a'', ''1.5''), (''b'', ''7''), (''a'', ''x'')] ''a'' = (Some [Finite 1, NaN], []) \<and>
   getFloatArray [(''a'', ''1.5''), (''b'', ''7''), (''a'', ''x'')] ''a'' = (Some [Finite (3 / 2), NaN], [])"
proof -
  have g: "usp_getAll [(''a'', ''1.5''), (''b'', ''7''), (''a'', ''x'')] ''a'' = [''1.5'', ''x'']"
    by (simp add: usp_getAll_def)
  then have n: "usp_getAll [(''a'', ''1.5''), (''b'', ''7''), (''a'', ''x'')] ''a'' \<noteq> []"
    by simp
  have p: "parseInt ''1.5'' = Finite 1" "parseInt ''x'' = NaN"
          "parseFloat ''1.5'' = Finite (3 / 2)" "parseFloat ''x'' = NaN"
    by (simp_all add: parse_defs)
  show ?thesis
    using numeric_arrays_never_absent [OF n] g p by simp
qed

end
